theory Spec2Isabelle
  imports Main
begin

section \<open>Flavor database: record store, import, smart add, relationship classifier\<close>

text \<open>
  The repository holds two versions of one Streamlit application,
  \<^verbatim>\<open>flavor_analysis5.py\<close> and \<^verbatim>\<open>flavor_analysis7.py\<close>. Both keep a table of
  (ingredient, compound, descriptor) rows in \<^verbatim>\<open>st.session_state.data\<close> and write it
  through to \<^verbatim>\<open>flavor_database.csv\<close>. Functions that differ between the two files
  carry the suffix 5 or 7; code that is the same in both is modelled once.
\<close>

subsection \<open>Text\<close>

text \<open>
  A Python \<^verbatim>\<open>str\<close> is a sequence of Unicode code points. The data is Chinese text, so a
  text is modelled as the list of its code points, not as bytes.
\<close>

type_synonym str = "nat list"

definition lit :: "string \<Rightarrow> str" where
  "lit s = map of_char s"

text \<open>
  \<^verbatim>\<open>str.isspace\<close> for one code point: the characters Python's \<^verbatim>\<open>str.strip()\<close>
  removes (tab to carriage return, the four separators, space, NEL, no-break space and
  the Unicode space separators up to the ideographic space).
\<close>

definition isspace :: "nat \<Rightarrow> bool" where
  "isspace c \<longleftrightarrow>
     (9 \<le> c \<and> c \<le> 13) \<or> (28 \<le> c \<and> c \<le> 32) \<or> c = 133 \<or> c = 160 \<or> c = 5760 \<or>
     (8192 \<le> c \<and> c \<le> 8202) \<or> c = 8232 \<or> c = 8233 \<or> c = 8239 \<or> c = 8287 \<or> c = 12288"

definition strip :: "str \<Rightarrow> str" where
  "strip s = rev (dropWhile isspace (rev (dropWhile isspace s)))"

subsection \<open>Rows, cells and the table operations of pandas that the code uses\<close>

record flavor_row =
  ingredient :: str
  compound :: str
  descriptor :: str

text \<open>
  A cell of a freshly read DataFrame, before \<^verbatim>\<open>astype(str)\<close>: either missing
  (\<^verbatim>\<open>NaN\<close>) or a value, kept as the text \<^verbatim>\<open>str()\<close> gives for it.
\<close>

datatype cell = NaN | Val str

definition nan_text :: str where
  "nan_text = lit ''nan''"

fun astype_str :: "cell \<Rightarrow> str" where
  "astype_str NaN = nan_text"
| "astype_str (Val s) = s"

definition replace_nan :: "str \<Rightarrow> str" where
  "replace_nan s = (if s = nan_text then [] else s)"

text \<open>\<^verbatim>\<open>df.astype(str).replace('nan', '')\<close> on one cell.\<close>

definition normalize_cell :: "cell \<Rightarrow> str" where
  "normalize_cell c = replace_nan (astype_str c)"

text \<open>
  \<^verbatim>\<open>Series.unique()\<close> and \<^verbatim>\<open>DataFrame.drop_duplicates()\<close> both keep the first
  occurrence of every value, in order of appearance.
\<close>

definition unique :: "'a list \<Rightarrow> 'a list" where
  "unique xs = rev (remdups (rev xs))"

definition drop_duplicates :: "flavor_row list \<Rightarrow> flavor_row list" where
  "drop_duplicates df = unique df"

subsection \<open>Session state, backing file and user messages\<close>

text \<open>
  The content of the backing file: the CSV that
  \<^verbatim>\<open>to_csv(DB_FILE, index=False, encoding='utf-8-sig')\<close> writes for a table, given by
  the rows written, each with its three fields; or any other content, which this program
  did not write.
\<close>

datatype disk_file = Other_content | Csv_utf8_sig "(str \<times> str \<times> str) list"

datatype msg =
    Save_failed | Load_failed
  | Imported nat | Imported_ok | Bad_format | Import_failed str
  | Added str str | Inferred nat | Added_ok
  | Cannot_infer str | Cannot_infer_plain | Fill_required

datatype notice = St_success msg | St_warning msg | St_error msg

text \<open>
  \<open>data\<close> is \<^verbatim>\<open>st.session_state.data\<close>, \<open>db_file\<close> the content of \<^verbatim>\<open>DB_FILE\<close>
  (\<open>None\<close> when the file does not exist), \<open>disk_ok\<close> says whether writing the file
  succeeds, \<open>notices\<close> collects the calls of \<^verbatim>\<open>st.success\<close>, \<^verbatim>\<open>st.warning\<close> and
  \<^verbatim>\<open>st.error\<close> in order.
\<close>

record world =
  data :: "flavor_row list"
  db_file :: "disk_file option"
  disk_ok :: bool
  notices :: "notice list"

definition report :: "notice \<Rightarrow> world \<Rightarrow> world" where
  "report n w = w\<lparr>notices := notices w @ [n]\<rparr>"

definition to_csv :: "flavor_row list \<Rightarrow> disk_file" where
  "to_csv df = Csv_utf8_sig (map (\<lambda>r. (ingredient r, compound r, descriptor r)) df)"

text \<open>
  \<^verbatim>\<open>save_db\<close>. \<^verbatim>\<open>'data' in st.session_state\<close> holds whenever it is called, since
  \<^verbatim>\<open>load_db()\<close> runs first at every start of the script. Version 5 reports a failed
  write, version 7 swallows it.
\<close>

definition save_db5 :: "world \<Rightarrow> world" where
  "save_db5 w =
     (if data w \<noteq> [] then
        (if disk_ok w then w\<lparr>db_file := Some (to_csv (data w))\<rparr>
         else report (St_error Save_failed) w)
      else w)"

definition save_db7 :: "world \<Rightarrow> world" where
  "save_db7 w =
     (if data w \<noteq> [] then
        (if disk_ok w then w\<lparr>db_file := Some (to_csv (data w))\<rparr>
         else w)
      else w)"

definition normalize_row :: "cell \<times> cell \<times> cell \<Rightarrow> flavor_row" where
  "normalize_row r =
     (case r of (a, b, c) \<Rightarrow>
        \<lparr>ingredient = normalize_cell a, compound = normalize_cell b,
         descriptor = normalize_cell c\<rparr>)"

text \<open>
  \<^verbatim>\<open>load_db\<close>. The library call \<^verbatim>\<open>pd.read_csv(DB_FILE)\<close> is not code of the
  repository: it is the parameter \<open>read_csv\<close>, which for a file content either raises
  or gives the cells of a frame of three columns, with whatever number of rows, types
  and missing cells the reader decides on. \<open>session\<close> is the session's table if the
  session already has one (\<^verbatim>\<open>'data' in st.session_state\<close>). The result is the table
  and the messages shown.
\<close>

type_synonym csv_reader = "disk_file \<Rightarrow> unit + (cell \<times> cell \<times> cell) list"

definition load_db5 :: "csv_reader \<Rightarrow> flavor_row list option \<Rightarrow> disk_file option \<Rightarrow> flavor_row list \<times> notice list" where
  "load_db5 read_csv session file =
     (case session of
        Some df \<Rightarrow> (df, [])
      | None \<Rightarrow>
          (case file of
             Some f \<Rightarrow>
               (case read_csv f of
                  Inr df \<Rightarrow> (map normalize_row df, [])
                | Inl e \<Rightarrow> ([], [St_error Load_failed]))
           | None \<Rightarrow> ([], [])))"

definition load_db7 :: "csv_reader \<Rightarrow> flavor_row list option \<Rightarrow> disk_file option \<Rightarrow> flavor_row list \<times> notice list" where
  "load_db7 read_csv session file =
     (case session of
        Some df \<Rightarrow> (df, [])
      | None \<Rightarrow>
          (case file of
             Some f \<Rightarrow>
               (case read_csv f of
                  Inr df \<Rightarrow> (map normalize_row df, [])
                | Inl e \<Rightarrow> ([], []))
           | None \<Rightarrow> ([], [])))"

text \<open>
  \<^verbatim>\<open>clear_db\<close>: empty table, backing file removed if it exists (the removal is taken to
  succeed); the closing \<^verbatim>\<open>st.rerun()\<close> restarts the script and changes no state.
\<close>

definition clear_db :: "world \<Rightarrow> world" where
  "clear_db w = w\<lparr>data := [], db_file := None\<rparr>"

subsection \<open>Import\<close>

text \<open>
  The uploaded spreadsheet: \<^verbatim>\<open>pd.read_excel\<close> raises (with the exception's text), or
  gives a DataFrame with a number of columns and its rows. A row shorter than the sheet
  is read with its trailing cells missing.
\<close>

datatype xlsx = Unreadable str | Sheet nat "cell list list"

fun read_excel :: "xlsx \<Rightarrow> str + (nat \<times> cell list list)" where
  "read_excel (Unreadable e) = Inl e"
| "read_excel (Sheet n rs) = Inr (n, rs)"

definition cell_at :: "cell list \<Rightarrow> nat \<Rightarrow> cell" where
  "cell_at r i = (if i < length r then r ! i else NaN)"

text \<open>\<^verbatim>\<open>df.iloc[:, :3]\<close> on one row.\<close>

definition iloc3 :: "cell list \<Rightarrow> cell \<times> cell \<times> cell" where
  "iloc3 r = (cell_at r 0, cell_at r 1, cell_at r 2)"

text \<open>
  The rows that reach \<^verbatim>\<open>pd.concat\<close>: first three columns, renamed, made text, and the
  rows with an empty ingredient dropped.
\<close>

definition import_rows :: "cell list list \<Rightarrow> flavor_row list" where
  "import_rows rs = filter (\<lambda>r. ingredient r \<noteq> []) (map (normalize_row \<circ> iloc3) rs)"

definition load_data_from_excel5 :: "xlsx \<Rightarrow> world \<Rightarrow> world" where
  "load_data_from_excel5 file w =
     (case read_excel file of
        Inl e \<Rightarrow> report (St_error (Import_failed e)) w
      | Inr (ncols, rs) \<Rightarrow>
          if ncols \<ge> 3 then
            (let df = import_rows rs;
                 w1 = w\<lparr>data := drop_duplicates (data w @ df)\<rparr>;
                 w2 = save_db5 w1
             in report (St_success (Imported (length df))) w2)
          else report (St_error Bad_format) w)"

definition load_data_from_excel7 :: "xlsx \<Rightarrow> world \<Rightarrow> world" where
  "load_data_from_excel7 file w =
     (case read_excel file of
        Inl e \<Rightarrow> report (St_error (Import_failed e)) w
      | Inr (ncols, rs) \<Rightarrow>
          if ncols \<ge> 3 then
            (let df = import_rows rs;
                 w1 = w\<lparr>data := drop_duplicates (data w @ df)\<rparr>;
                 w2 = save_db7 w1
             in report (St_success Imported_ok) w2)
          else report (St_error Bad_format) w)"

subsection \<open>Smart add\<close>

text \<open>\<^verbatim>\<open>df[df[DESC] == desc][COMP].unique()\<close>\<close>

definition matched_comps :: "flavor_row list \<Rightarrow> str \<Rightarrow> str list" where
  "matched_comps df desc = unique (map compound (filter (\<lambda>r. descriptor r = desc) df))"

text \<open>\<^verbatim>\<open>df[df[COMP] == m][DESC].unique()\<close>\<close>

definition related_descs :: "flavor_row list \<Rightarrow> str \<Rightarrow> str list" where
  "related_descs df m = unique (map descriptor (filter (\<lambda>r. compound r = m) df))"

text \<open>The inner loop \<^verbatim>\<open>for r in related_descs: new_rows.append(...)\<close>.\<close>

fun append_related :: "str \<Rightarrow> str \<Rightarrow> str list \<Rightarrow> flavor_row list \<Rightarrow> flavor_row list" where
  "append_related ing m [] new_rows = new_rows"
| "append_related ing m (r # rs) new_rows =
     append_related ing m rs (new_rows @ [\<lparr>ingredient = ing, compound = m, descriptor = r\<rparr>])"

text \<open>
  The outer loop \<^verbatim>\<open>for m in matched_comps\<close>; the second component is version 5's
  \<^verbatim>\<open>count\<close>.
\<close>

fun infer_loop :: "flavor_row list \<Rightarrow> str \<Rightarrow> str list \<Rightarrow> flavor_row list \<times> nat \<Rightarrow> flavor_row list \<times> nat" where
  "infer_loop df ing [] acc = acc"
| "infer_loop df ing (m # ms) (new_rows, count) =
     infer_loop df ing ms (append_related ing m (related_descs df m) new_rows, count + 1)"

text \<open>The common tail of \<^verbatim>\<open>smart_add\<close>: \<^verbatim>\<open>if new_rows: concat, drop_duplicates, save, success\<close>.\<close>

definition commit5 :: "flavor_row list \<Rightarrow> msg \<Rightarrow> world \<Rightarrow> world" where
  "commit5 new_rows m w =
     (if new_rows \<noteq> [] then
        report (St_success m) (save_db5 (w\<lparr>data := drop_duplicates (data w @ new_rows)\<rparr>))
      else w)"

definition commit7 :: "flavor_row list \<Rightarrow> world \<Rightarrow> world" where
  "commit7 new_rows w =
     (if new_rows \<noteq> [] then
        report (St_success Added_ok) (save_db7 (w\<lparr>data := drop_duplicates (data w @ new_rows)\<rparr>))
      else w)"

definition smart_add5 :: "str \<Rightarrow> str \<Rightarrow> str \<Rightarrow> world \<Rightarrow> world" where
  "smart_add5 ing0 comp0 desc0 w =
     (let df = data w;
          ing = strip ing0; cmpd = strip comp0; desc = strip desc0
      in if ing \<noteq> [] \<and> cmpd \<noteq> [] \<and> desc \<noteq> [] then
           commit5 [\<lparr>ingredient = ing, compound = cmpd, descriptor = desc\<rparr>] (Added ing cmpd) w
         else if ing \<noteq> [] \<and> desc \<noteq> [] \<and> cmpd = [] then
           (let matched = matched_comps df desc
            in if length matched = 0 then report (St_warning (Cannot_infer desc)) w
               else (case infer_loop df ing matched ([], 0) of
                       (new_rows, count) \<Rightarrow> commit5 new_rows (Inferred count) w))
         else report (St_warning Fill_required) w)"

definition smart_add7 :: "str \<Rightarrow> str \<Rightarrow> str \<Rightarrow> world \<Rightarrow> world" where
  "smart_add7 ing cmpd desc w =
     (let df = data w
      in if ing \<noteq> [] \<and> cmpd \<noteq> [] \<and> desc \<noteq> [] then
           commit7 [\<lparr>ingredient = ing, compound = cmpd, descriptor = desc\<rparr>] w
         else if ing \<noteq> [] \<and> desc \<noteq> [] \<and> cmpd = [] then
           (let matched = matched_comps df desc
            in if length matched = 0 then report (St_warning Cannot_infer_plain) w
               else commit7 (fst (infer_loop df ing matched ([], 0))) w)
         else w)"

subsection \<open>Relationship classifier\<close>

text \<open>
  The first part of \<^verbatim>\<open>draw_enhanced_network\<close> (version 5) and of \<^verbatim>\<open>get_graph_data\<close>
  (version 7), which is the same code in both: the rows of the chosen compounds, and the
  loop sorting the secondary ingredients into the strong and the normal list.
\<close>

definition subset_of :: "flavor_row list \<Rightarrow> str list \<Rightarrow> flavor_row list" where
  "subset_of df selected_comps = filter (\<lambda>r. compound r \<in> set selected_comps) df"

definition connected_comps :: "flavor_row list \<Rightarrow> str \<Rightarrow> str list" where
  "connected_comps sub ing = unique (map compound (filter (\<lambda>r. ingredient r = ing) sub))"

fun classify_loop :: "flavor_row list \<Rightarrow> str list \<Rightarrow> str list \<times> str list \<Rightarrow> str list \<times> str list" where
  "classify_loop sub [] acc = acc"
| "classify_loop sub (ing # rest) (strong, normal) =
     (if length (connected_comps sub ing) \<ge> 2
      then classify_loop sub rest (strong @ [ing], normal)
      else classify_loop sub rest (strong, normal @ [ing]))"

definition classify_secondary :: "flavor_row list \<Rightarrow> str list \<Rightarrow> str list \<Rightarrow> str list \<times> str list" where
  "classify_secondary df selected_comps secondary_ings =
     classify_loop (subset_of df selected_comps) secondary_ings ([], [])"

text \<open>
  The caller's list of secondary ingredients:
  \<^verbatim>\<open>[x for x in df[df[COMP].isin(final_comps)][ING].unique() if x not in sel_ings]\<close>.
\<close>

definition sec_ings :: "flavor_row list \<Rightarrow> str list \<Rightarrow> str list \<Rightarrow> str list" where
  "sec_ings df sel_ings final_comps =
     filter (\<lambda>x. x \<notin> set sel_ings) (unique (map ingredient (subset_of df final_comps)))"

subsection \<open>Notions of the specification, and example data\<close>

text \<open>
  The compounds of the chosen set that an ingredient is linked to, counted over the rows
  whose compound is chosen (the specification's count for the classifier).
\<close>

definition linked_compounds :: "flavor_row list \<Rightarrow> str list \<Rightarrow> str \<Rightarrow> str set" where
  "linked_compounds df chosen s =
     compound ` {r \<in> set df. compound r \<in> set chosen \<and> ingredient r = s}"

text \<open>
  The records the specification asks the inference to add: ingredient \<open>ing\<close> with every
  compound \<open>m\<close> that some row pairs with the descriptor \<open>desc\<close>, and with every
  descriptor that some row pairs with \<open>m\<close>.
\<close>

definition inferred_records :: "flavor_row list \<Rightarrow> str \<Rightarrow> str \<Rightarrow> flavor_row set" where
  "inferred_records df ing desc =
     (\<lambda>(x, y). \<lparr>ingredient = ing, compound = compound x, descriptor = descriptor y\<rparr>) `
       {(x, y) \<in> set df \<times> set df. descriptor x = desc \<and> compound y = compound x}"

definition mk_row :: "string \<Rightarrow> string \<Rightarrow> string \<Rightarrow> flavor_row" where
  "mk_row i c d = \<lparr>ingredient = lit i, compound = lit c, descriptor = lit d\<rparr>"

text \<open>The specification's example for the classifier, with a third ingredient linked to both compounds.\<close>

definition threshold_rows :: "flavor_row list" where
  "threshold_rows =
     [mk_row ''a'' ''C1'' ''d'', mk_row ''a'' ''C2'' ''d'', mk_row ''b'' ''C1'' ''d'',
      mk_row ''c'' ''C1'' ''d'', mk_row ''c'' ''C2'' ''d'']"

text \<open>A fresh session with no backing file.\<close>

definition empty_world :: world where
  "empty_world = \<lparr>data = [], db_file = None, disk_ok = True, notices = []\<rparr>"

text \<open>The specification's example store for the inference.\<close>

definition expansion_world :: world where
  "expansion_world =
     \<lparr>data = [mk_row ''x'' ''C1'' ''d1'', mk_row ''x'' ''C1'' ''d2'', mk_row ''y'' ''C2'' ''d1''],
      db_file = None, disk_ok = True, notices = []\<rparr>"

text \<open>A table holding the same row twice, as a backing file edited by hand can give.\<close>

definition dup_world :: world where
  "dup_world =
     \<lparr>data = [mk_row ''x'' ''C1'' ''d1'', mk_row ''x'' ''C1'' ''d1''],
      db_file = None, disk_ok = True, notices = []\<rparr>"

text \<open>
  A table with a row of Chinese text: ingredient U+8C4C U+8C46, descriptor U+679C U+9999.
\<close>

definition pea_world :: world where
  "pea_world =
     \<lparr>data = [\<lparr>ingredient = [35916, 35910], compound = lit ''Comp2'', descriptor = [26524, 39321]\<rparr>],
      db_file = None, disk_ok = True, notices = []\<rparr>"

text \<open>
  A sheet of four columns: a row with missing cells, the text \<^verbatim>\<open>nan\<close> and an extra
  column, a row with no ingredient, a short row, and a repeated row.
\<close>

definition sample_sheet :: xlsx where
  "sample_sheet = Sheet 4
     [[Val (lit ''a''), NaN, Val (lit ''nan''), Val (lit ''extra'')],
      [NaN, Val (lit ''C1''), Val (lit ''d1'')],
      [Val (lit ''b'')],
      [Val (lit ''a''), NaN, NaN, NaN]]"

definition narrow_sheet :: xlsx where
  "narrow_sheet = Sheet 2 [[Val (lit ''a''), Val (lit ''C1'')]]"

text \<open>The session after the user has added ingredient a, compound nan, descriptor b to a fresh one.\<close>

definition nan_world :: world where
  "nan_world = smart_add5 (lit ''a'') (lit ''nan'') (lit ''b'') empty_world"

section \<open>Properties\<close>

subsection \<open>Table operations and state\<close>

lemma set_unique [simp]: "set (unique xs) = set xs"
  by (simp add: unique_def)

lemma distinct_unique [simp]: "distinct (unique xs)"
  by (simp add: unique_def)

lemma length_unique: "length (unique xs) = card (set xs)"
  by (simp add: unique_def length_remdups_card_conv)

lemma unique_eq_Nil [simp]: "unique xs = [] \<longleftrightarrow> xs = []"
  by (simp add: unique_def)

lemma remdups_absorb: "set ys \<subseteq> set xs \<Longrightarrow> remdups (ys @ xs) = remdups xs"
  by (induction ys) auto

lemma unique_absorb: "distinct xs \<Longrightarrow> set ys \<subseteq> set xs \<Longrightarrow> unique (xs @ ys) = xs"
  by (simp add: unique_def remdups_absorb distinct_remdups_id)

lemma dd_twice: "drop_duplicates (drop_duplicates (s @ r) @ r) = drop_duplicates (s @ r)"
  by (simp add: drop_duplicates_def unique_absorb)

lemma data_report [simp]: "data (report n w) = data w"
  by (simp add: report_def)

lemma db_file_report [simp]: "db_file (report n w) = db_file w"
  by (simp add: report_def)

lemma disk_ok_report [simp]: "disk_ok (report n w) = disk_ok w"
  by (simp add: report_def)

lemma notices_report [simp]: "notices (report n w) = notices w @ [n]"
  by (simp add: report_def)

lemma data_save_db5 [simp]: "data (save_db5 w) = data w"
  by (simp add: save_db5_def)

lemma data_save_db7 [simp]: "data (save_db7 w) = data w"
  by (simp add: save_db7_def)

lemma disk_ok_save_db5 [simp]: "disk_ok (save_db5 w) = disk_ok w"
  by (simp add: save_db5_def)

lemma disk_ok_save_db7 [simp]: "disk_ok (save_db7 w) = disk_ok w"
  by (simp add: save_db7_def)

lemma db_file_save_db5:
  "db_file (save_db5 w) = (if data w \<noteq> [] \<and> disk_ok w then Some (to_csv (data w)) else db_file w)"
  by (simp add: save_db5_def)

lemma db_file_save_db7:
  "db_file (save_db7 w) = (if data w \<noteq> [] \<and> disk_ok w then Some (to_csv (data w)) else db_file w)"
  by (simp add: save_db7_def)

text \<open>The equations that evaluate the model on concrete data.\<close>

lemmas eval_defs =
  smart_add7_def smart_add5_def commit5_def commit7_def save_db5_def save_db7_def
  report_def drop_duplicates_def unique_def empty_world_def strip_def isspace_def lit_def
  mk_row_def to_csv_def matched_comps_def related_descs_def Let_def nan_text_def
  load_data_from_excel5_def load_data_from_excel7_def import_rows_def normalize_row_def
  normalize_cell_def replace_nan_def iloc3_def cell_at_def clear_db_def
  load_db5_def load_db7_def

subsection \<open>The relationship classifier\<close>

lemma length_connected_comps:
  "length (connected_comps (subset_of df chosen) s) = card (linked_compounds df chosen s)"
proof -
  have "set (map compound (filter (\<lambda>r. ingredient r = s) (subset_of df chosen)))
          = linked_compounds df chosen s"
    by (auto simp: subset_of_def linked_compounds_def)
  then show ?thesis
    by (simp add: connected_comps_def length_unique)
qed

lemma classify_loop_fst:
  "set (fst (classify_loop sub xs (strong, normal)))
     = set strong \<union> {x \<in> set xs. 2 \<le> length (connected_comps sub x)}"
  by (induction xs arbitrary: strong normal) auto

lemma classify_loop_snd:
  "set (snd (classify_loop sub xs (strong, normal)))
     = set normal \<union> {x \<in> set xs. \<not> 2 \<le> length (connected_comps sub x)}"
  by (induction xs arbitrary: strong normal) auto

text \<open>
  C1. For every table, every list of chosen compounds and every list of secondary
  ingredients handed to the classifier, a secondary ingredient lands in the strong list
  exactly when it is linked to at least two distinct chosen compounds (counted over the
  rows whose compound is chosen), and in the normal (weak) list otherwise; in particular
  with exactly one such compound it is weak and not strong.
\<close>

theorem classifier_threshold:
  assumes "s \<in> set secondary_ings"
    and "classify_secondary df selected_comps secondary_ings = (strong, normal)"
  shows "(s \<in> set strong \<longleftrightarrow> 2 \<le> card (linked_compounds df selected_comps s))
       \<and> (s \<in> set normal \<longleftrightarrow> card (linked_compounds df selected_comps s) < 2)
       \<and> (card (linked_compounds df selected_comps s) = 1 \<longrightarrow> s \<in> set normal \<and> s \<notin> set strong)"
proof -
  have st: "set strong = {x \<in> set secondary_ings. 2 \<le> card (linked_compounds df selected_comps x)}"
    using classify_loop_fst [of "subset_of df selected_comps" secondary_ings "[]" "[]"] assms(2)
    by (simp add: classify_secondary_def length_connected_comps)
  have no: "set normal = {x \<in> set secondary_ings. \<not> 2 \<le> card (linked_compounds df selected_comps x)}"
    using classify_loop_snd [of "subset_of df selected_comps" secondary_ings "[]" "[]"] assms(2)
    by (simp add: classify_secondary_def length_connected_comps)
  from assms(1) st no show ?thesis by auto
qed

theorem classifier_threshold_witness:
  "lit ''b'' \<in> set (sec_ings threshold_rows [lit ''a''] [lit ''C1'', lit ''C2''])
   \<and> classify_secondary threshold_rows [lit ''C1'', lit ''C2'']
        (sec_ings threshold_rows [lit ''a''] [lit ''C1'', lit ''C2'']) = ([lit ''c''], [lit ''b''])
   \<and> card (linked_compounds threshold_rows [lit ''C1'', lit ''C2''] (lit ''b'')) < 2
   \<and> 2 \<le> card (linked_compounds threshold_rows [lit ''C1'', lit ''C2''] (lit ''c''))"
proof -
  let ?secs = "sec_ings threshold_rows [lit ''a''] [lit ''C1'', lit ''C2'']"
  have secs: "?secs = [lit ''b'', lit ''c'']"
    by code_simp
  have b: "lit ''b'' \<in> set ?secs" and c: "lit ''c'' \<in> set ?secs"
    by (simp_all add: secs)
  have cl: "classify_secondary threshold_rows [lit ''C1'', lit ''C2''] ?secs = ([lit ''c''], [lit ''b''])"
    unfolding secs by code_simp
  have ne: "lit ''b'' \<noteq> lit ''c''"
    by code_simp
  from classifier_threshold [OF b cl] classifier_threshold [OF c cl] b cl ne show ?thesis
    by simp
qed

subsection \<open>Smart add\<close>

lemma set_append_related:
  "set (append_related ing m rs acc)
     = set acc \<union> (\<lambda>r. \<lparr>ingredient = ing, compound = m, descriptor = r\<rparr>) ` set rs"
  by (induction rs arbitrary: acc) auto

lemma set_infer_loop:
  "set (fst (infer_loop df ing ms (acc, c))) =
     set acc \<union> (\<Union>m\<in>set ms. (\<lambda>r. \<lparr>ingredient = ing, compound = m, descriptor = r\<rparr>) `
       set (related_descs df m))"
  by (induction ms arbitrary: acc c) (auto simp: set_append_related)

lemma set_infer_rows:
  "set (fst (infer_loop df ing (matched_comps df desc) ([], 0))) = inferred_records df ing desc"
  unfolding set_infer_loop
  by (auto simp: matched_comps_def related_descs_def inferred_records_def image_iff)

lemma matched_comps_Nil:
  "matched_comps df desc = [] \<longleftrightarrow> \<not> (\<exists>x\<in>set df. descriptor x = desc)"
  by (auto simp: matched_comps_def filter_empty_conv)

lemma infer_rows_nonempty:
  assumes "x \<in> set df" and "descriptor x = desc"
  shows "fst (infer_loop df ing (matched_comps df desc) ([], 0)) \<noteq> []"
proof -
  have "\<lparr>ingredient = ing, compound = compound x, descriptor = desc\<rparr> \<in> inferred_records df ing desc"
    using assms by (force simp: inferred_records_def)
  then have "set (fst (infer_loop df ing (matched_comps df desc) ([], 0))) \<noteq> {}"
    unfolding set_infer_rows by blast
  then show ?thesis
    by auto
qed

lemma set_commit5: "set (data (commit5 new_rows m w)) = set (data w) \<union> set new_rows"
  by (simp add: commit5_def drop_duplicates_def)

lemma set_commit7: "set (data (commit7 new_rows w)) = set (data w) \<union> set new_rows"
  by (simp add: commit7_def drop_duplicates_def)

lemma distinct_commit5: "new_rows \<noteq> [] \<Longrightarrow> distinct (data (commit5 new_rows m w))"
  by (simp add: commit5_def drop_duplicates_def)

lemma distinct_commit7: "new_rows \<noteq> [] \<Longrightarrow> distinct (data (commit7 new_rows w))"
  by (simp add: commit7_def drop_duplicates_def)

lemma smart_add7_infer:
  assumes "ing \<noteq> []" and "desc \<noteq> []" and "x \<in> set (data w)" and "descriptor x = desc"
  shows "smart_add7 ing [] desc w =
           commit7 (fst (infer_loop (data w) ing (matched_comps (data w) desc) ([], 0))) w"
  using assms by (auto simp: smart_add7_def Let_def matched_comps_Nil)

lemma smart_add5_infer:
  assumes "strip ing \<noteq> []" and "strip cmpd = []" and "strip desc \<noteq> []"
    and "x \<in> set (data w)" and "descriptor x = strip desc"
  shows "\<exists>m. smart_add5 ing cmpd desc w =
           commit5 (fst (infer_loop (data w) (strip ing) (matched_comps (data w) (strip desc)) ([], 0))) m w"
  using assms by (auto simp: smart_add5_def Let_def matched_comps_Nil split: prod.splits)

text \<open>
  C2. Called with a non-empty ingredient, an empty compound and a non-empty descriptor
  that some row of the store carries, \<^verbatim>\<open>smart_add\<close> leaves in the store exactly the old
  records and the records (ingredient, m, r) for every compound m that some row pairs
  with that descriptor and every descriptor r that some row pairs with m, each once.
  Version 5 tests and uses the trimmed inputs, version 7 the inputs as given.
\<close>

theorem smart_add_inference_expansion:
  "(strip ing \<noteq> [] \<and> strip cmpd = [] \<and> strip desc \<noteq> []
      \<and> (\<exists>x\<in>set (data w). descriptor x = strip desc) \<longrightarrow>
      set (data (smart_add5 ing cmpd desc w))
        = set (data w) \<union> inferred_records (data w) (strip ing) (strip desc)
      \<and> distinct (data (smart_add5 ing cmpd desc w)))
   \<and> (ing \<noteq> [] \<and> desc \<noteq> [] \<and> (\<exists>x\<in>set (data w). descriptor x = desc) \<longrightarrow>
      set (data (smart_add7 ing [] desc w)) = set (data w) \<union> inferred_records (data w) ing desc
      \<and> distinct (data (smart_add7 ing [] desc w)))"
proof (intro conjI impI)
  assume h: "strip ing \<noteq> [] \<and> strip cmpd = [] \<and> strip desc \<noteq> []
    \<and> (\<exists>x\<in>set (data w). descriptor x = strip desc)"
  then obtain x where x: "x \<in> set (data w)" "descriptor x = strip desc"
    by blast
  from smart_add5_infer [of ing cmpd desc x w] h x obtain m where
    eq: "smart_add5 ing cmpd desc w =
      commit5 (fst (infer_loop (data w) (strip ing) (matched_comps (data w) (strip desc)) ([], 0))) m w"
    by blast
  show "set (data (smart_add5 ing cmpd desc w))
      = set (data w) \<union> inferred_records (data w) (strip ing) (strip desc)"
    by (simp add: eq set_commit5 set_infer_rows)
  show "distinct (data (smart_add5 ing cmpd desc w))"
    unfolding eq by (rule distinct_commit5) (rule infer_rows_nonempty [OF x])
next
  assume h: "ing \<noteq> [] \<and> desc \<noteq> [] \<and> (\<exists>x\<in>set (data w). descriptor x = desc)"
  then obtain x where x: "x \<in> set (data w)" "descriptor x = desc"
    by blast
  have eq: "smart_add7 ing [] desc w =
      commit7 (fst (infer_loop (data w) ing (matched_comps (data w) desc) ([], 0))) w"
    using smart_add7_infer [of ing desc x w] h x by blast
  show "set (data (smart_add7 ing [] desc w)) = set (data w) \<union> inferred_records (data w) ing desc"
    by (simp add: eq set_commit7 set_infer_rows)
  show "distinct (data (smart_add7 ing [] desc w))"
    unfolding eq by (rule distinct_commit7) (rule infer_rows_nonempty [OF x])
qed

theorem smart_add_inference_expansion_witness:
  "strip (lit '' z'') \<noteq> [] \<and> strip (lit '' '') = [] \<and> strip (lit ''d1 '') \<noteq> []
   \<and> (\<exists>x\<in>set (data expansion_world). descriptor x = strip (lit ''d1 ''))
   \<and> set (data (smart_add5 (lit '' z'') (lit '' '') (lit ''d1 '') expansion_world))
       = set (data expansion_world)
           \<union> inferred_records (data expansion_world) (strip (lit '' z'')) (strip (lit ''d1 ''))
   \<and> set (data (smart_add7 (lit ''z'') [] (lit ''d1'') expansion_world))
       = set (data expansion_world) \<union> inferred_records (data expansion_world) (lit ''z'') (lit ''d1'')
   \<and> data (smart_add7 (lit ''z'') [] (lit ''d1'') expansion_world)
       = data expansion_world
           @ [mk_row ''z'' ''C1'' ''d1'', mk_row ''z'' ''C1'' ''d2'', mk_row ''z'' ''C2'' ''d1'']"
proof -
  have h5: "strip (lit '' z'') \<noteq> [] \<and> strip (lit '' '') = [] \<and> strip (lit ''d1 '') \<noteq> []
      \<and> (\<exists>x\<in>set (data expansion_world). descriptor x = strip (lit ''d1 ''))"
    by (simp add: eval_defs expansion_world_def)
  have h7: "lit ''z'' \<noteq> [] \<and> lit ''d1'' \<noteq> []
      \<and> (\<exists>x\<in>set (data expansion_world). descriptor x = lit ''d1'')"
    by (simp add: eval_defs expansion_world_def)
  have ev: "data (smart_add7 (lit ''z'') [] (lit ''d1'') expansion_world)
       = data expansion_world
           @ [mk_row ''z'' ''C1'' ''d1'', mk_row ''z'' ''C1'' ''d2'', mk_row ''z'' ''C2'' ''d1'']"
    by (simp add: eval_defs expansion_world_def)
  from smart_add_inference_expansion [of "lit '' z''" "lit '' ''" "lit ''d1 ''" expansion_world]
       smart_add_inference_expansion [of "lit ''z''" "[]" "lit ''d1''" expansion_world] h5 h7 ev
  show ?thesis
    by blast
qed

subsection \<open>No duplicate rows after a mutation\<close>

text \<open>
  C3. After each mutating operation the table has no two equal rows, whatever it held
  before: after \<^verbatim>\<open>clear_db\<close>; after an import that passes the column check; after
  \<^verbatim>\<open>smart_add\<close> with all three fields filled (the explicit add); and after
  \<^verbatim>\<open>smart_add\<close> with ingredient and descriptor only, when the descriptor is found (the
  inference). Version 5 reads the fields after trimming.
\<close>

theorem mutations_leave_no_duplicates:
  "distinct (data (clear_db w))
   \<and> (read_excel file = Inr (ncols, rs) \<and> 3 \<le> ncols \<longrightarrow>
        distinct (data (load_data_from_excel5 file w))
        \<and> distinct (data (load_data_from_excel7 file w)))
   \<and> (strip ing \<noteq> [] \<and> strip cmpd \<noteq> [] \<and> strip desc \<noteq> [] \<longrightarrow>
        distinct (data (smart_add5 ing cmpd desc w)))
   \<and> (ing \<noteq> [] \<and> cmpd \<noteq> [] \<and> desc \<noteq> [] \<longrightarrow>
        distinct (data (smart_add7 ing cmpd desc w)))
   \<and> (strip ing \<noteq> [] \<and> strip cmpd = [] \<and> strip desc \<noteq> []
        \<and> (\<exists>x\<in>set (data w). descriptor x = strip desc) \<longrightarrow>
        distinct (data (smart_add5 ing cmpd desc w)))
   \<and> (ing \<noteq> [] \<and> cmpd = [] \<and> desc \<noteq> [] \<and> (\<exists>x\<in>set (data w). descriptor x = desc) \<longrightarrow>
        distinct (data (smart_add7 ing cmpd desc w)))"
proof (intro conjI impI)
  show "distinct (data (clear_db w))"
    by (simp add: clear_db_def)
next
  assume "read_excel file = Inr (ncols, rs) \<and> 3 \<le> ncols"
  then show "distinct (data (load_data_from_excel5 file w))"
    by (simp add: load_data_from_excel5_def Let_def drop_duplicates_def)
next
  assume "read_excel file = Inr (ncols, rs) \<and> 3 \<le> ncols"
  then show "distinct (data (load_data_from_excel7 file w))"
    by (simp add: load_data_from_excel7_def Let_def drop_duplicates_def)
next
  assume "strip ing \<noteq> [] \<and> strip cmpd \<noteq> [] \<and> strip desc \<noteq> []"
  then show "distinct (data (smart_add5 ing cmpd desc w))"
    by (simp add: smart_add5_def Let_def distinct_commit5)
next
  assume "ing \<noteq> [] \<and> cmpd \<noteq> [] \<and> desc \<noteq> []"
  then show "distinct (data (smart_add7 ing cmpd desc w))"
    by (simp add: smart_add7_def Let_def distinct_commit7)
next
  assume h: "strip ing \<noteq> [] \<and> strip cmpd = [] \<and> strip desc \<noteq> []
    \<and> (\<exists>x\<in>set (data w). descriptor x = strip desc)"
  then obtain x where x: "x \<in> set (data w)" "descriptor x = strip desc"
    by blast
  from smart_add5_infer [of ing cmpd desc x w] h x obtain m where
    eq: "smart_add5 ing cmpd desc w =
      commit5 (fst (infer_loop (data w) (strip ing) (matched_comps (data w) (strip desc)) ([], 0))) m w"
    by blast
  show "distinct (data (smart_add5 ing cmpd desc w))"
    unfolding eq by (rule distinct_commit5) (rule infer_rows_nonempty [OF x])
next
  assume h: "ing \<noteq> [] \<and> cmpd = [] \<and> desc \<noteq> [] \<and> (\<exists>x\<in>set (data w). descriptor x = desc)"
  then obtain x where x: "x \<in> set (data w)" "descriptor x = desc"
    by blast
  have eq: "smart_add7 ing cmpd desc w =
      commit7 (fst (infer_loop (data w) ing (matched_comps (data w) desc) ([], 0))) w"
    using smart_add7_infer [of ing desc x w] h x by auto
  show "distinct (data (smart_add7 ing cmpd desc w))"
    unfolding eq by (rule distinct_commit7) (rule infer_rows_nonempty [OF x])
qed

theorem mutations_leave_no_duplicates_witness:
  "\<not> distinct (data dup_world)
   \<and> read_excel sample_sheet =
       Inr (4, [[Val (lit ''a''), NaN, Val (lit ''nan''), Val (lit ''extra'')],
                [NaN, Val (lit ''C1''), Val (lit ''d1'')], [Val (lit ''b'')],
                [Val (lit ''a''), NaN, NaN, NaN]])
   \<and> distinct (data (clear_db dup_world))
   \<and> distinct (data (load_data_from_excel5 sample_sheet dup_world))
   \<and> distinct (data (load_data_from_excel7 sample_sheet dup_world))
   \<and> distinct (data (smart_add5 (lit ''y'') (lit ''C2'') (lit ''d1'') dup_world))
   \<and> distinct (data (smart_add7 (lit ''y'') (lit ''C2'') (lit ''d1'') dup_world))
   \<and> distinct (data (smart_add5 (lit ''y'') [] (lit ''d1'') dup_world))
   \<and> distinct (data (smart_add7 (lit ''y'') [] (lit ''d1'') dup_world))"
proof -
  let ?rs = "[[Val (lit ''a''), NaN, Val (lit ''nan''), Val (lit ''extra'')],
      [NaN, Val (lit ''C1''), Val (lit ''d1'')], [Val (lit ''b'')], [Val (lit ''a''), NaN, NaN, NaN]]"
  have d: "\<not> distinct (data dup_world)"
    by (simp add: dup_world_def)
  have f: "read_excel sample_sheet = Inr (4, ?rs) \<and> (3::nat) \<le> 4"
    by (simp add: sample_sheet_def)
  have a: "strip (lit ''y'') \<noteq> [] \<and> strip (lit ''C2'') \<noteq> [] \<and> strip (lit ''d1'') \<noteq> []"
    by (simp add: eval_defs)
  have a7: "lit ''y'' \<noteq> [] \<and> lit ''C2'' \<noteq> [] \<and> lit ''d1'' \<noteq> []"
    by (simp add: eval_defs)
  have i: "strip (lit ''y'') \<noteq> [] \<and> strip [] = [] \<and> strip (lit ''d1'') \<noteq> []
      \<and> (\<exists>x\<in>set (data dup_world). descriptor x = strip (lit ''d1''))"
    by (simp add: eval_defs dup_world_def)
  have i7: "lit ''y'' \<noteq> [] \<and> ([]::str) = [] \<and> lit ''d1'' \<noteq> []
      \<and> (\<exists>x\<in>set (data dup_world). descriptor x = lit ''d1'')"
    by (simp add: eval_defs dup_world_def)
  from mutations_leave_no_duplicates
         [of dup_world sample_sheet 4 ?rs "lit ''y''" "lit ''C2''" "lit ''d1''"]
       mutations_leave_no_duplicates
         [of dup_world sample_sheet 4 ?rs "lit ''y''" "[]" "lit ''d1''"]
       d f a a7 i i7
  show ?thesis
    by blast
qed

subsection \<open>Rejected imports\<close>

text \<open>
  C4. If reading the uploaded file raises, or the sheet has fewer than three columns,
  the import reports one error message and leaves the table and the backing file as they
  were: no row is merged.
\<close>

theorem import_failure_leaves_store:
  assumes "read_excel file = Inl e \<or> (read_excel file = Inr (ncols, rs) \<and> ncols < 3)"
  shows "data (load_data_from_excel5 file w) = data w
       \<and> db_file (load_data_from_excel5 file w) = db_file w
       \<and> (\<exists>m. notices (load_data_from_excel5 file w) = notices w @ [St_error m])
       \<and> data (load_data_from_excel7 file w) = data w
       \<and> db_file (load_data_from_excel7 file w) = db_file w
       \<and> (\<exists>m. notices (load_data_from_excel7 file w) = notices w @ [St_error m])"
  using assms by (auto simp: load_data_from_excel5_def load_data_from_excel7_def)

theorem import_failure_leaves_store_witness:
  "read_excel (Unreadable (lit ''not a zip file'')) = Inl (lit ''not a zip file'')
   \<and> read_excel narrow_sheet = Inr (2, [[Val (lit ''a''), Val (lit ''C1'')]]) \<and> (2::nat) < 3
   \<and> data (load_data_from_excel5 (Unreadable (lit ''not a zip file'')) expansion_world)
       = data expansion_world
   \<and> data (load_data_from_excel7 (Unreadable (lit ''not a zip file'')) expansion_world)
       = data expansion_world
   \<and> data (load_data_from_excel5 narrow_sheet expansion_world) = data expansion_world
   \<and> data (load_data_from_excel7 narrow_sheet expansion_world) = data expansion_world"
proof -
  have u: "read_excel (Unreadable (lit ''not a zip file'')) = Inl (lit ''not a zip file'')"
    by simp
  have n: "read_excel narrow_sheet = Inr (2, [[Val (lit ''a''), Val (lit ''C1'')]]) \<and> (2::nat) < 3"
    by (simp add: narrow_sheet_def)
  from import_failure_leaves_store
         [of "Unreadable (lit ''not a zip file'')" "lit ''not a zip file''" _ _ expansion_world,
          OF disjI1, OF u]
       import_failure_leaves_store
         [of narrow_sheet _ 2 "[[Val (lit ''a''), Val (lit ''C1'')]]" expansion_world,
          OF disjI2, OF n]
       u n
  show ?thesis
    by blast
qed

subsection \<open>Rejected smart adds\<close>

text \<open>
  Version 5 meets the rejection rule in full: on insufficient input, and when the
  descriptor is found in no row, the session keeps its table and file and one warning is
  reported. Version 7 keeps the table and file in both cases.
\<close>

lemma smart_add5_rejects:
  assumes "\<not> (strip i \<noteq> [] \<and> strip c \<noteq> [] \<and> strip d \<noteq> [])"
    and "\<not> (strip i \<noteq> [] \<and> strip d \<noteq> [] \<and> strip c = [])
         \<or> \<not> (\<exists>x\<in>set (data w). descriptor x = strip d)"
  shows "data (smart_add5 i c d w) = data w \<and> db_file (smart_add5 i c d w) = db_file w
       \<and> (\<exists>m. notices (smart_add5 i c d w) = notices w @ [St_warning m])"
  using assms by (auto simp: smart_add5_def Let_def matched_comps_Nil)

lemma smart_add7_rejects:
  assumes "\<not> (i \<noteq> [] \<and> c \<noteq> [] \<and> d \<noteq> [])"
    and "\<not> (i \<noteq> [] \<and> d \<noteq> [] \<and> c = []) \<or> \<not> (\<exists>x\<in>set (data w). descriptor x = d)"
  shows "data (smart_add7 i c d w) = data w \<and> db_file (smart_add7 i c d w) = db_file w"
  using assms by (auto simp: smart_add7_def Let_def matched_comps_Nil)

lemma smart_add7_cannot_infer_warns:
  assumes "i \<noteq> []" and "d \<noteq> []" and "\<not> (\<exists>x\<in>set (data w). descriptor x = d)"
  shows "smart_add7 i [] d w = report (St_warning Cannot_infer_plain) w"
  using assms by (simp add: smart_add7_def Let_def matched_comps_Nil)

text \<open>
  C5, version 7 on insufficient input. Called with all three fields empty, version 7's
  \<^verbatim>\<open>smart_add\<close> returns the session exactly as it was, so it inserts nothing but also
  reports no message; version 5 reports the warning on the same input.
\<close>

theorem smart_add7_insufficient_is_silent:
  "smart_add7 [] [] [] w = w
   \<and> notices (smart_add7 [] [] [] empty_world) = []
   \<and> notices (smart_add5 [] [] [] empty_world) = [St_warning Fill_required]"
  by (simp add: smart_add7_def smart_add5_def empty_world_def strip_def report_def)

subsection \<open>Saving and loading the backing file\<close>

text \<open>
  \<^verbatim>\<open>astype(str).replace('nan', '')\<close> never leaves the text \<^verbatim>\<open>nan\<close> in a cell, so
  whatever the reader returns, no field of a loaded table is that text.
\<close>

lemma normalize_cell_not_nan: "normalize_cell c \<noteq> nan_text"
  by (cases c) (simp_all add: normalize_cell_def replace_nan_def nan_text_def lit_def)

lemma loaded_rows_not_nan:
  assumes "r \<in> set (fst (load_db5 read_csv None file)) \<or> r \<in> set (fst (load_db7 read_csv None file))"
  shows "ingredient r \<noteq> nan_text \<and> compound r \<noteq> nan_text \<and> descriptor r \<noteq> nan_text"
  using assms
  by (auto simp: load_db5_def load_db7_def normalize_row_def normalize_cell_not_nan
      split: option.splits sum.splits)

text \<open>
  C6, at a table with a field holding the text \<^verbatim>\<open>nan\<close>. The user adds (a, nan, b) to a
  fresh session, which saves it. Whatever \<^verbatim>\<open>pd.read_csv\<close> returns for the file, the
  row (a, nan, b) is not in the table that \<^verbatim>\<open>load_db\<close> builds from it in a fresh
  session, in either version: saving and loading does not reproduce the records.
\<close>

theorem save_load_loses_nan_text:
  "data nan_world = [mk_row ''a'' ''nan'' ''b'']
   \<and> db_file (save_db5 nan_world) = Some (Csv_utf8_sig [(lit ''a'', lit ''nan'', lit ''b'')])
   \<and> mk_row ''a'' ''nan'' ''b'' \<notin> set (fst (load_db5 read_csv None (db_file (save_db5 nan_world))))
   \<and> mk_row ''a'' ''nan'' ''b'' \<notin> set (fst (load_db7 read_csv None (db_file (save_db7 nan_world))))
   \<and> set (fst (load_db5 read_csv None (db_file (save_db5 nan_world)))) \<noteq> set (data nan_world)
   \<and> set (fst (load_db7 read_csv None (db_file (save_db7 nan_world)))) \<noteq> set (data nan_world)"
proof -
  have d: "data nan_world = [mk_row ''a'' ''nan'' ''b'']"
    by (simp add: eval_defs nan_world_def)
  have f: "db_file (save_db5 nan_world) = Some (Csv_utf8_sig [(lit ''a'', lit ''nan'', lit ''b'')])"
    by (simp add: eval_defs nan_world_def)
  have c: "compound (mk_row ''a'' ''nan'' ''b'') = nan_text"
    by (simp add: mk_row_def nan_text_def)
  have n5: "mk_row ''a'' ''nan'' ''b'' \<notin> set (fst (load_db5 read_csv None fl))" for fl
    using loaded_rows_not_nan [of "mk_row ''a'' ''nan'' ''b''" read_csv fl] c by blast
  have n7: "mk_row ''a'' ''nan'' ''b'' \<notin> set (fst (load_db7 read_csv None fl))" for fl
    using loaded_rows_not_nan [of "mk_row ''a'' ''nan'' ''b''" read_csv fl] c by blast
  have m: "mk_row ''a'' ''nan'' ''b'' \<in> set (data nan_world)"
    by (simp add: d)
  from n5 [of "db_file (save_db5 nan_world)"] m
  have s5: "set (fst (load_db5 read_csv None (db_file (save_db5 nan_world)))) \<noteq> set (data nan_world)"
    by blast
  from n7 [of "db_file (save_db7 nan_world)"] m
  have s7: "set (fst (load_db7 read_csv None (db_file (save_db7 nan_world)))) \<noteq> set (data nan_world)"
    by blast
  from d f n5 n7 s5 s7 show ?thesis
    by blast
qed

subsection \<open>Importing the same file twice\<close>

text \<open>
  C7. Importing a file a second time, right after importing it, changes neither the
  table nor the backing file, whatever the file and the state before.
\<close>

theorem import_twice_is_import_once:
  "data (load_data_from_excel5 f (load_data_from_excel5 f w)) = data (load_data_from_excel5 f w)
   \<and> db_file (load_data_from_excel5 f (load_data_from_excel5 f w))
       = db_file (load_data_from_excel5 f w)
   \<and> data (load_data_from_excel7 f (load_data_from_excel7 f w)) = data (load_data_from_excel7 f w)
   \<and> db_file (load_data_from_excel7 f (load_data_from_excel7 f w))
       = db_file (load_data_from_excel7 f w)"
  by (auto simp: load_data_from_excel5_def load_data_from_excel7_def Let_def dd_twice
      db_file_save_db5 db_file_save_db7 split: sum.splits prod.splits)

subsection \<open>Trimming of the smart-add inputs\<close>

lemma dropWhile_strip: "dropWhile isspace (strip s) = strip s"
proof (cases "strip s")
  case Nil
  then show ?thesis by simp
next
  case (Cons c cs)
  let ?t = "dropWhile isspace s"
  have "?t = strip s @ rev (takeWhile isspace (rev ?t))"
    unfolding strip_def by (metis rev_append rev_rev_ident takeWhile_dropWhile_id)
  with Cons have t: "?t = c # cs @ rev (takeWhile isspace (rev ?t))"
    by simp
  then have "?t \<noteq> []" and "hd ?t = c"
    by (metis list.distinct(1), metis list.sel(1))
  with hd_dropWhile [of isspace s] have "\<not> isspace c"
    by simp
  with Cons show ?thesis
    by simp
qed

lemma strip_idem: "strip (strip s) = strip s"
proof -
  have "strip (strip s) = rev (dropWhile isspace (rev (strip s)))"
    by (simp add: strip_def [of "strip s"] dropWhile_strip)
  also have "\<dots> = strip s"
    by (simp add: strip_def)
  finally show ?thesis .
qed

lemma strip_no_space:
  assumes "strip s \<noteq> []"
  shows "\<not> isspace (hd (strip s)) \<and> \<not> isspace (last (strip s))"
proof
  show "\<not> isspace (hd (strip s))"
    using dropWhile_strip [of s] assms by (metis hd_dropWhile)
  have "dropWhile isspace (rev (dropWhile isspace s)) \<noteq> []"
    using assms by (simp add: strip_def)
  then have "\<not> isspace (hd (dropWhile isspace (rev (dropWhile isspace s))))"
    by (rule hd_dropWhile)
  then show "\<not> isspace (last (strip s))"
    using assms by (simp add: strip_def last_rev)
qed

text \<open>
  Version 5 trims: its result depends on the three inputs only through their trimmed
  values, which carry no whitespace at either end.
\<close>

lemma smart_add5_strip: "smart_add5 (strip i) (strip c) (strip d) w = smart_add5 i c d w"
  by (simp add: smart_add5_def strip_idem)

text \<open>
  C8, version 7 on an input with surrounding spaces. Version 7's \<^verbatim>\<open>smart_add\<close> stores
  the ingredient with its spaces, where version 5 stores the trimmed ingredient.
\<close>

theorem smart_add7_keeps_whitespace:
  "data (smart_add7 (lit '' a '') (lit ''c'') (lit ''d'') empty_world)
     = [\<lparr>ingredient = lit '' a '', compound = lit ''c'', descriptor = lit ''d''\<rparr>]
   \<and> data (smart_add5 (lit '' a '') (lit ''c'') (lit ''d'') empty_world)
     = [\<lparr>ingredient = lit ''a'', compound = lit ''c'', descriptor = lit ''d''\<rparr>]
   \<and> lit '' a '' \<noteq> lit ''a''"
  by (simp add: eval_defs)

subsection \<open>What save writes\<close>

text \<open>
  C9, as stated, fails on the empty table: \<^verbatim>\<open>save_db\<close> is guarded by
  \<^verbatim>\<open>not st.session_state.data.empty\<close>, so in a fresh session with no backing file it
  writes no file, in both versions.
\<close>

theorem save_db_skips_empty_table:
  "db_file (save_db5 empty_world) = None \<and> db_file (save_db7 empty_world) = None
   \<and> db_file (save_db5 empty_world) \<noteq> Some (to_csv (data empty_world))
   \<and> db_file (save_db7 empty_world) \<noteq> Some (to_csv (data empty_world))"
  by (simp add: save_db5_def save_db7_def empty_world_def)

text \<open>
  C9, amended. Every call of \<^verbatim>\<open>save_db\<close> on a non-empty table whose write succeeds
  leaves in the backing file the full table, every row with its three fields as they
  are, in order, in the encoding utf-8-sig; on the empty table it changes nothing.
\<close>

theorem save_db_writes_nonempty_table:
  "(data w \<noteq> [] \<and> disk_ok w \<longrightarrow>
      db_file (save_db5 w)
        = Some (Csv_utf8_sig (map (\<lambda>r. (ingredient r, compound r, descriptor r)) (data w)))
      \<and> db_file (save_db7 w)
        = Some (Csv_utf8_sig (map (\<lambda>r. (ingredient r, compound r, descriptor r)) (data w))))
   \<and> (data w = [] \<longrightarrow> save_db5 w = w \<and> save_db7 w = w)"
  by (simp add: save_db5_def save_db7_def to_csv_def)

theorem save_db_writes_nonempty_table_witness:
  "data pea_world \<noteq> [] \<and> disk_ok pea_world
   \<and> db_file (save_db5 pea_world) = Some (Csv_utf8_sig [([35916, 35910], lit ''Comp2'', [26524, 39321])])
   \<and> db_file (save_db7 pea_world) = Some (Csv_utf8_sig [([35916, 35910], lit ''Comp2'', [26524, 39321])])
   \<and> data empty_world = [] \<and> save_db5 empty_world = empty_world \<and> save_db7 empty_world = empty_world"
proof -
  have h: "data pea_world \<noteq> [] \<and> disk_ok pea_world"
    by (simp add: pea_world_def)
  have e: "data empty_world = []"
    by (simp add: empty_world_def)
  have m: "map (\<lambda>r. (ingredient r, compound r, descriptor r)) (data pea_world)
      = [([35916, 35910], lit ''Comp2'', [26524, 39321])]"
    by (simp add: pea_world_def)
  from save_db_writes_nonempty_table [of pea_world] save_db_writes_nonempty_table [of empty_world]
       h e m
  show ?thesis
    by simp
qed

subsection \<open>Which rows an import accepts\<close>

lemma ingredient_empty_iff:
  "ingredient (normalize_row (iloc3 r)) = []
     \<longleftrightarrow> cell_at r 0 = NaN \<or> cell_at r 0 = Val [] \<or> cell_at r 0 = Val nan_text"
  by (cases "cell_at r 0")
     (auto simp: normalize_row_def iloc3_def normalize_cell_def replace_nan_def)

text \<open>
  C10. An import that passes the column check leaves in the table exactly the old rows
  and the normalized rows of the sheet whose ingredient is not empty: a row is dropped
  only for its empty ingredient, and a row with a non-empty ingredient is accepted
  whatever its compound and descriptor, empty or not.
\<close>

theorem import_filters_only_empty_ingredient:
  assumes "read_excel file = Inr (ncols, rs)" and "3 \<le> ncols"
  shows "set (data (load_data_from_excel5 file w)) =
           set (data w) \<union> {normalize_row (iloc3 r) | r.
             r \<in> set rs \<and> ingredient (normalize_row (iloc3 r)) \<noteq> []}
       \<and> set (data (load_data_from_excel7 file w)) =
           set (data w) \<union> {normalize_row (iloc3 r) | r.
             r \<in> set rs \<and> ingredient (normalize_row (iloc3 r)) \<noteq> []}"
  using assms
  by (auto simp: load_data_from_excel5_def load_data_from_excel7_def Let_def
      drop_duplicates_def import_rows_def)

theorem import_filters_only_empty_ingredient_witness:
  "read_excel sample_sheet =
     Inr (4, [[Val (lit ''a''), NaN, Val (lit ''nan''), Val (lit ''extra'')],
              [NaN, Val (lit ''C1''), Val (lit ''d1'')], [Val (lit ''b'')],
              [Val (lit ''a''), NaN, NaN, NaN]])
   \<and> (3::nat) \<le> 4
   \<and> set (data (load_data_from_excel5 sample_sheet empty_world))
       = {\<lparr>ingredient = lit ''a'', compound = [], descriptor = []\<rparr>,
          \<lparr>ingredient = lit ''b'', compound = [], descriptor = []\<rparr>}
   \<and> set (data (load_data_from_excel7 sample_sheet empty_world))
       = {\<lparr>ingredient = lit ''a'', compound = [], descriptor = []\<rparr>,
          \<lparr>ingredient = lit ''b'', compound = [], descriptor = []\<rparr>}"
proof -
  let ?rs = "[[Val (lit ''a''), NaN, Val (lit ''nan''), Val (lit ''extra'')],
      [NaN, Val (lit ''C1''), Val (lit ''d1'')], [Val (lit ''b'')], [Val (lit ''a''), NaN, NaN, NaN]]"
  have f: "read_excel sample_sheet = Inr (4, ?rs)"
    by (simp add: sample_sheet_def)
  have n: "(3::nat) \<le> 4"
    by simp
  have c: "{normalize_row (iloc3 r) | r. r \<in> set ?rs \<and> ingredient (normalize_row (iloc3 r)) \<noteq> []}
      = set (import_rows ?rs)"
    unfolding import_rows_def by auto
  have e: "import_rows ?rs =
      [\<lparr>ingredient = lit ''a'', compound = [], descriptor = []\<rparr>,
       \<lparr>ingredient = lit ''b'', compound = [], descriptor = []\<rparr>,
       \<lparr>ingredient = lit ''a'', compound = [], descriptor = []\<rparr>]"
    by (simp add: eval_defs)
  have s: "set (data empty_world) \<union> {normalize_row (iloc3 r) | r.
        r \<in> set ?rs \<and> ingredient (normalize_row (iloc3 r)) \<noteq> []}
      = {\<lparr>ingredient = lit ''a'', compound = [], descriptor = []\<rparr>,
         \<lparr>ingredient = lit ''b'', compound = [], descriptor = []\<rparr>}"
    unfolding c e by (auto simp: empty_world_def)
  from import_filters_only_empty_ingredient [OF f n, of empty_world] f n s show ?thesis
    by simp
qed

end
